theory Spec2Isabelle
  imports Main "HOL-Library.AList"
begin

section \<open>Python values\<close>

text \<open>
  A Python \<^verbatim>\<open>str\<close> is a sequence of Unicode code points. A character (a string of
  length one, as iteration over a string yields) is modelled by its code point, so that
  \<^verbatim>\<open>ord(c)\<close> is the character itself; a string is the list of its characters.
\<close>

type_synonym uchar = nat
type_synonym ustring = "uchar list"
type_synonym bytes = "nat list"

definition ustr :: "string \<Rightarrow> ustring" where
  "ustr s = map of_char s"

definition py_ord :: "uchar \<Rightarrow> nat" where
  "py_ord c = c"

text \<open>
  The exceptions of the program. \<open>InvalidCharacterError\<close> is the renderer's own class;
  \<open>OtherError\<close> stands for any further exception the renderer or the host may raise.
\<close>

datatype error = KeyError | IndexError | TypeError | InvalidCharacterError | OtherError nat

text \<open>
  The values a configuration record can hold: what the JSON reader produces. A float is
  carried by the text \<^verbatim>\<open>repr\<close> prints for it (the program does no arithmetic on it).
\<close>

datatype pyval =
    PNone
  | PBool bool
  | PInt int
  | PFloat ustring
  | PStr ustring
  | PList "pyval list"
  | PDict "(ustring \<times> pyval) list"

text \<open>Truth value testing, as \<^verbatim>\<open>if v:\<close> does it.\<close>

fun truthy :: "pyval \<Rightarrow> bool" where
  "truthy PNone = False"
| "truthy (PBool b) = b"
| "truthy (PInt i) = (i \<noteq> 0)"
| "truthy (PFloat r) = (r \<noteq> ustr ''0.0'' \<and> r \<noteq> ustr ''-0.0'')"
| "truthy (PStr s) = (s \<noteq> [])"
| "truthy (PList vs) = (vs \<noteq> [])"
| "truthy (PDict kvs) = (kvs \<noteq> [])"

text \<open>\<^verbatim>\<open>d[k]\<close> on a dictionary raises \<^verbatim>\<open>KeyError\<close> for a missing key.\<close>

definition dict_getitem :: "(ustring \<rightharpoonup> pyval) \<Rightarrow> ustring \<Rightarrow> error + pyval" where
  "dict_getitem d k = (case d k of None \<Rightarrow> Inl KeyError | Some v \<Rightarrow> Inr v)"

text \<open>\<^verbatim>\<open>s += v\<close> for a string \<open>s\<close>: only a string can be appended.\<close>

definition str_add :: "ustring \<Rightarrow> pyval \<Rightarrow> error + ustring" where
  "str_add s v = (case v of PStr t \<Rightarrow> Inr (s @ t) | _ \<Rightarrow> Inl TypeError)"

text \<open>\<^verbatim>\<open>xs[i]\<close> on a list: a negative index counts from the end.\<close>

definition list_getitem :: "'a list \<Rightarrow> int \<Rightarrow> error + 'a" where
  "list_getitem xs i =
     (if 0 \<le> i \<and> i < int (length xs) then Inr (xs ! nat i)
      else if i < 0 \<and> - int (length xs) \<le> i then Inr (xs ! nat (int (length xs) + i))
      else Inl IndexError)"

text \<open>\<^verbatim>\<open>sub in s\<close> on strings: \<open>sub\<close> occurs in \<open>s\<close> as a contiguous run.\<close>

fun starts_with :: "ustring \<Rightarrow> ustring \<Rightarrow> bool" where
  "starts_with s [] = True"
| "starts_with [] (p # ps) = False"
| "starts_with (c # s) (p # ps) = (c = p \<and> starts_with s ps)"

fun str_contains :: "ustring \<Rightarrow> ustring \<Rightarrow> bool" where
  "str_contains [] sub = (sub = [])"
| "str_contains (c # s) sub = (starts_with (c # s) sub \<or> str_contains s sub)"

section \<open>The host application, the renderer and the builtins\<close>

text \<open>
  A model (note type) of the host and a note. Only what the program reads is kept:
  \<^verbatim>\<open>model['name']\<close>, \<^verbatim>\<open>model['flds'][i]['name']\<close>, \<^verbatim>\<open>note.id\<close>, \<^verbatim>\<open>note.model()\<close> and the
  note's fields by name, in their order.
\<close>

record fld =
  fld_name :: ustring

record model =
  model_name :: ustring
  model_flds :: "fld list"

record Note =
  note_id :: int
  note_model :: model
  note_fields :: "(ustring \<times> ustring) list"

text \<open>\<^verbatim>\<open>note[key]\<close> and \<^verbatim>\<open>note[key] = value\<close>; both raise \<^verbatim>\<open>KeyError\<close> for an unknown field.\<close>

definition note_getitem :: "Note \<Rightarrow> ustring \<Rightarrow> error + ustring" where
  "note_getitem n key = (case map_of (note_fields n) key of None \<Rightarrow> Inl KeyError | Some v \<Rightarrow> Inr v)"

definition note_setitem :: "Note \<Rightarrow> ustring \<Rightarrow> ustring \<Rightarrow> error + Note" where
  "note_setitem n key v =
     (case map_of (note_fields n) key of
        None \<Rightarrow> Inl KeyError
      | Some _ \<Rightarrow> Inr (n\<lparr>note_fields := AList.update key v (note_fields n)\<rparr>))"

text \<open>
  Modelled from the spec: the host's \<^verbatim>\<open>mw.col.models.fieldNames\<close> is not part of this
  repository; it gives the field names the model declares, here the names of
  \<^verbatim>\<open>model['flds']\<close> in order.
\<close>

definition fieldNames :: "model \<Rightarrow> ustring list" where
  "fieldNames m = map fld_name (model_flds m)"

text \<open>The renderer object held by a profile is determined by the option string it was built from.\<close>

datatype colorizer = KanjiColorizer ustring

text \<open>
  Every call that leaves the program (to the renderer or to the host's storage) is
  recorded, in order, in a trace.
\<close>

datatype event =
    MediaStrip ustring
  | KanjiVG uchar
  | GetColoredSvg colorizer uchar
  | WriteData ustring bytes
  | Flush Note

text \<open>
  What the program calls and does not define, taken as parameters. The lower-casing of
  text beyond ASCII, \<^verbatim>\<open>str()\<close> and \<^verbatim>\<open>str.encode\<close> are builtins; the others belong to
  the renderer (\<^verbatim>\<open>KanjiColorizer(config)\<close>, \<^verbatim>\<open>KanjiVG(c).ascii_filename\<close>,
  \<^verbatim>\<open>get_colored_svg\<close>) and to the host (\<^verbatim>\<open>mw.col.media.strip\<close>,
  \<^verbatim>\<open>mw.col.media.writeData\<close>, \<^verbatim>\<open>note.flush\<close>). A call returns a value or raises;
  the host's storage calls see the trace so far, since what they answer depends on what
  was stored before.
\<close>

record externals =
  unicode_lower :: "ustring \<Rightarrow> ustring"
  py_str :: "pyval \<Rightarrow> ustring"
  encode_utf_8 :: "ustring \<Rightarrow> error + bytes"
  new_KanjiColorizer :: "ustring \<Rightarrow> error option"
  ascii_filename :: "uchar \<Rightarrow> error + ustring"
  get_colored_svg :: "colorizer \<Rightarrow> uchar \<Rightarrow> error + ustring"
  media_strip :: "ustring \<Rightarrow> error + ustring"
  media_writeData :: "event list \<Rightarrow> ustring \<Rightarrow> bytes \<Rightarrow> error + ustring"
  note_flush :: "event list \<Rightarrow> Note \<Rightarrow> error option"

text \<open>
  \<^verbatim>\<open>str.lower()\<close>: on text that is all ASCII it maps \<^verbatim>\<open>A\<close>..\<^verbatim>\<open>Z\<close> to \<^verbatim>\<open>a\<close>..\<^verbatim>\<open>z\<close>
  and keeps every other character; beyond ASCII it follows the Unicode tables, a parameter.
\<close>

definition ascii_lower :: "uchar \<Rightarrow> uchar" where
  "ascii_lower c = (if 65 \<le> c \<and> c \<le> 90 then c + 32 else c)"

definition lower :: "externals \<Rightarrow> ustring \<Rightarrow> ustring" where
  "lower ext s = (if list_all (\<lambda>c. c < 128) s then map ascii_lower s else unicode_lower ext s)"

section \<open>Profiles\<close>

record profile =
  kanji_colorizer :: colorizer
  model_name_substr :: ustring
  src_field :: ustring
  dst_field :: ustring
  overwrite_dest :: bool
  diagrammed_characters :: pyval

definition make_kanji_colorizer :: "externals \<Rightarrow> (ustring \<rightharpoonup> pyval) \<Rightarrow> error + colorizer" where
  "make_kanji_colorizer ext data =
     (let config = ustr ''--mode '' in
      case dict_getitem data (ustr ''mode'') of Inl e \<Rightarrow> Inl e | Inr mode \<Rightarrow>
     (case str_add config mode of Inl e \<Rightarrow> Inl e | Inr config \<Rightarrow>
     (case dict_getitem data (ustr ''group-mode'') of Inl e \<Rightarrow> Inl e | Inr group_mode \<Rightarrow>
     (let config = (if truthy group_mode then config @ ustr '' --group-mode '' else config);
          config = config @ ustr '' --saturation ''
      in
      case dict_getitem data (ustr ''saturation'') of Inl e \<Rightarrow> Inl e | Inr saturation \<Rightarrow>
     (let config = config @ py_str ext saturation;
          config = config @ ustr '' --value ''
      in
      case dict_getitem data (ustr ''value'') of Inl e \<Rightarrow> Inl e | Inr val \<Rightarrow>
     (let config = config @ py_str ext val;
          config = config @ ustr '' --image-size ''
      in
      case dict_getitem data (ustr ''image-size'') of Inl e \<Rightarrow> Inl e | Inr image_size \<Rightarrow>
     (let config = config @ py_str ext image_size in
      case new_KanjiColorizer ext config of
        Some e \<Rightarrow> Inl e
      | None \<Rightarrow> Inr (KanjiColorizer config))))))))"

text \<open>
  \<^verbatim>\<open>Profile.__init__\<close>. A value read from JSON has exactly one of the types of
  \<open>pyval\<close>, so \<^verbatim>\<open>type(v) is str\<close> holds for \<open>PStr\<close> only and \<^verbatim>\<open>type(v) is bool\<close>
  for \<open>PBool\<close> only.
\<close>

definition Profile_init :: "externals \<Rightarrow> (ustring \<rightharpoonup> pyval) \<Rightarrow> error + profile" where
  "Profile_init ext data =
     (case make_kanji_colorizer ext data of Inl e \<Rightarrow> Inl e | Inr kc \<Rightarrow>
     (let mns = (case data (ustr ''model'') of
                   Some (PStr s) \<Rightarrow> lower ext s | _ \<Rightarrow> ustr ''japanese'');
          src = (case data (ustr ''src-field'') of
                   Some (PStr s) \<Rightarrow> s | _ \<Rightarrow> ustr ''Kanji'');
          dst = (case data (ustr ''dst-field'') of
                   Some (PStr s) \<Rightarrow> s | _ \<Rightarrow> ustr ''Diagram'');
          ovw = (case data (ustr ''overwrite-dest'') of
                   Some (PBool b) \<Rightarrow> b | _ \<Rightarrow> True)
      in
      case dict_getitem data (ustr ''diagrammed-characters'') of Inl e \<Rightarrow> Inl e | Inr dc \<Rightarrow>
        Inr \<lparr>kanji_colorizer = kc, model_name_substr = mns, src_field = src, dst_field = dst,
             overwrite_dest = ovw, diagrammed_characters = dc\<rparr>))"

section \<open>Model matching\<close>

definition model_is_correct_type :: "externals \<Rightarrow> profile \<Rightarrow> model \<Rightarrow> bool" where
  "model_is_correct_type ext self m =
     (let model_name = lower ext (model_name m);
          fields = fieldNames m
      in str_contains model_name (model_name_substr self) \<and>
         src_field self \<in> set fields \<and>
         dst_field self \<in> set fields)"

section \<open>Character selection\<close>

definition is_kanji :: "uchar \<Rightarrow> bool" where
  "is_kanji c = (py_ord c \<ge> 19968 \<and> py_ord c \<le> 40879)"

definition characters_to_colorize :: "profile \<Rightarrow> ustring \<Rightarrow> uchar list" where
  "characters_to_colorize self s =
     (if diagrammed_characters self = PStr (ustr ''all'') then s
      else if diagrammed_characters self = PStr (ustr ''kanji'') then filter is_kanji s
      else
        (let just_kanji = filter is_kanji s in
         if length just_kanji \<ge> 1 then just_kanji else s))"

section \<open>Diagram application\<close>

text \<open>The state \<^verbatim>\<open>addKanji\<close> works on: the note it was given and the trace of calls.\<close>

record world =
  w_note :: Note
  w_trace :: "event list"

text \<open>The markup for one stored file: \<^verbatim>\<open>'<img src="{!s}">'.format(anki_fname)\<close>.\<close>

definition img_tag :: "ustring \<Rightarrow> ustring" where
  \<open>img_tag anki_fname = ustr ''<img src="'' @ anki_fname @ ustr ''">''\<close>

text \<open>
  The loop of \<^verbatim>\<open>addKanji\<close> over the selected characters, from the markup \<open>dst\<close>
  built so far. An exception ends it; what was written before stays written.
\<close>

fun render_loop ::
  "externals \<Rightarrow> profile \<Rightarrow> uchar list \<Rightarrow> ustring \<Rightarrow> event list \<Rightarrow> (error + ustring) \<times> event list"
where
  "render_loop ext self [] dst tr = (Inr dst, tr)"
| \<open>render_loop ext self (character # rest) dst tr =
     (let tr1 = tr @ [KanjiVG character] in
      case ascii_filename ext character of
        Inl e \<Rightarrow>
          if e = InvalidCharacterError then render_loop ext self rest dst tr1
          else (Inl e, tr1)
      | Inr filename \<Rightarrow>
         (let tr2 = tr1 @ [GetColoredSvg (kanji_colorizer self) character] in
          case get_colored_svg ext (kanji_colorizer self) character of
            Inl e \<Rightarrow> (Inl e, tr2)
          | Inr svg \<Rightarrow>
             (case encode_utf_8 ext svg of
                Inl e \<Rightarrow> (Inl e, tr2)
              | Inr char_svg \<Rightarrow>
                 (let tr3 = tr2 @ [WriteData filename char_svg] in
                  case media_writeData ext tr2 filename char_svg of
                    Inl e \<Rightarrow> (Inl e, tr3)
                  | Inr anki_fname \<Rightarrow>
                      render_loop ext self rest (dst @ img_tag anki_fname) tr3))))\<close>

text \<open>Lines 118 to 145 of \<^verbatim>\<open>addKanji\<close>: what happens once the field check has passed.\<close>

definition addKanji_apply :: "externals \<Rightarrow> profile \<Rightarrow> world \<Rightarrow> bool \<Rightarrow> (error + bool) \<times> world" where
  "addKanji_apply ext self w flag =
     (case note_getitem (w_note w) (src_field self) of
        Inl e \<Rightarrow> (Inl e, w)
      | Inr src \<Rightarrow>
         (let tr1 = w_trace w @ [MediaStrip src] in
          case media_strip ext src of
            Inl e \<Rightarrow> (Inl e, w\<lparr>w_trace := tr1\<rparr>)
          | Inr srcTxt \<Rightarrow>
             (case note_getitem (w_note w) (dst_field self) of
                Inl e \<Rightarrow> (Inl e, w\<lparr>w_trace := tr1\<rparr>)
              | Inr oldDst \<Rightarrow>
                 (case render_loop ext self (characters_to_colorize self srcTxt) [] tr1 of
                    (Inl e, tr2) \<Rightarrow> (Inl e, w\<lparr>w_trace := tr2\<rparr>)
                  | (Inr dst, tr2) \<Rightarrow>
                      if oldDst \<noteq> [] \<and> \<not> overwrite_dest self then (Inr flag, w\<lparr>w_trace := tr2\<rparr>)
                      else if dst \<noteq> oldDst \<and> dst \<noteq> [] then
                        (case note_setitem (w_note w) (dst_field self) dst of
                           Inl e \<Rightarrow> (Inl e, w\<lparr>w_trace := tr2\<rparr>)
                         | Inr n \<Rightarrow>
                             if note_id n \<noteq> 0 then
                               (case note_flush ext tr2 n of
                                  Some e \<Rightarrow> (Inl e, \<lparr>w_note = n, w_trace = tr2 @ [Flush n]\<rparr>)
                                | None \<Rightarrow> (Inr True, \<lparr>w_note = n, w_trace = tr2 @ [Flush n]\<rparr>))
                             else (Inr True, \<lparr>w_note = n, w_trace = tr2\<rparr>))
                      else (Inr flag, w\<lparr>w_trace := tr2\<rparr>)))))"

definition addKanji ::
  "externals \<Rightarrow> profile \<Rightarrow> world \<Rightarrow> bool \<Rightarrow> int option \<Rightarrow> (error + bool) \<times> world"
where
  "addKanji ext self w flag current_field_index =
     (case current_field_index of
        Some i \<Rightarrow>
         (case list_getitem (model_flds (note_model (w_note w))) i of
            Inl e \<Rightarrow> (Inl e, w)
          | Inr f \<Rightarrow>
              if fld_name f \<noteq> src_field self then (Inr flag, w)
              else addKanji_apply ext self w flag)
      | None \<Rightarrow> addKanji_apply ext self w flag)"

text \<open>
  The check of lines 113 to 116 lets the call through: no field was exited, or the exited
  field is the profile's source field.
\<close>

definition field_check_passes :: "profile \<Rightarrow> world \<Rightarrow> int option \<Rightarrow> bool" where
  "field_check_passes self w current_field_index =
     (case current_field_index of
        None \<Rightarrow> True
      | Some i \<Rightarrow>
         (case list_getitem (model_flds (note_model (w_note w))) i of
            Inl e \<Rightarrow> False
          | Inr f \<Rightarrow> fld_name f = src_field self))"

section \<open>Reading a trace\<close>

text \<open>
  The media writes of a trace, the characters rendered and the characters looked up with
  \<^verbatim>\<open>KanjiVG\<close>, each in order.
\<close>

fun writes_of :: "event list \<Rightarrow> (ustring \<times> bytes) list" where
  "writes_of [] = []"
| "writes_of (WriteData filename char_svg # tr) = (filename, char_svg) # writes_of tr"
| "writes_of (ev # tr) = writes_of tr"

fun rendered_of :: "event list \<Rightarrow> uchar list" where
  "rendered_of [] = []"
| "rendered_of (GetColoredSvg k character # tr) = character # rendered_of tr"
| "rendered_of (ev # tr) = rendered_of tr"

fun looked_up_of :: "event list \<Rightarrow> uchar list" where
  "looked_up_of [] = []"
| "looked_up_of (KanjiVG character # tr) = character # looked_up_of tr"
| "looked_up_of (ev # tr) = looked_up_of tr"

text \<open>
  The file the loop hands to \<^verbatim>\<open>writeData\<close> for one character: its name and its bytes,
  when the renderer knows the character and produces them.
\<close>

definition diagram_file :: "externals \<Rightarrow> profile \<Rightarrow> uchar \<Rightarrow> (ustring \<times> bytes) option" where
  "diagram_file ext self character =
     (case ascii_filename ext character of
        Inl e \<Rightarrow> None
      | Inr filename \<Rightarrow>
         (case get_colored_svg ext (kanji_colorizer self) character of
            Inl e \<Rightarrow> None
          | Inr svg \<Rightarrow>
             (case encode_utf_8 ext svg of
                Inl e \<Rightarrow> None
              | Inr char_svg \<Rightarrow> Some (filename, char_svg))))"

section \<open>Running the program on examples\<close>

text \<open>
  One instance of the parameters, to run the definitions on concrete inputs: the renderer
  knows no character below 128 and names the file of any other character \<open>c\<close> as \<open>c\<close>
  followed by \<^verbatim>\<open>.svg\<close>, with the diagram \<^verbatim>\<open><c>\<close>; the host keeps the name it is
  given and accepts every flush.
\<close>

definition example_externals :: externals where
  "example_externals =
     \<lparr>unicode_lower = (\<lambda>s. s),
      py_str = (\<lambda>v. case v of PStr s \<Rightarrow> s | PFloat r \<Rightarrow> r | _ \<Rightarrow> ustr ''327''),
      encode_utf_8 = (\<lambda>s. Inr s),
      new_KanjiColorizer = (\<lambda>config. None),
      ascii_filename = (\<lambda>c. if c < 128 then Inl InvalidCharacterError else Inr [c, 46, 115, 118, 103]),
      get_colored_svg = (\<lambda>k c. Inr [60, c, 62]),
      media_strip = (\<lambda>s. Inr s),
      media_writeData = (\<lambda>tr f d. Inr f),
      note_flush = (\<lambda>tr n. None)\<rparr>"

definition example_config :: "ustring \<rightharpoonup> pyval" where
  "example_config =
     [ustr ''mode'' \<mapsto> PStr (ustr ''spectrum''),
      ustr ''group-mode'' \<mapsto> PBool False,
      ustr ''saturation'' \<mapsto> PFloat (ustr ''0.95''),
      ustr ''value'' \<mapsto> PFloat (ustr ''0.75''),
      ustr ''image-size'' \<mapsto> PInt 327,
      ustr ''diagrammed-characters'' \<mapsto> PStr (ustr ''all'')]"

text \<open>
  The same record with a number for \<^verbatim>\<open>model\<close>, a source field of its own, no
  \<^verbatim>\<open>dst-field\<close> and a string for \<^verbatim>\<open>overwrite-dest\<close>.
\<close>

definition example_config_malformed :: "ustring \<rightharpoonup> pyval" where
  "example_config_malformed =
     example_config
       (ustr ''model'' \<mapsto> PInt 3,
        ustr ''src-field'' \<mapsto> PStr (ustr ''Expression''),
        ustr ''overwrite-dest'' \<mapsto> PStr (ustr ''no''))"

definition example_profile :: profile where
  "example_profile =
     \<lparr>kanji_colorizer = KanjiColorizer (ustr ''--mode spectrum''),
      model_name_substr = ustr ''japanese'',
      src_field = ustr ''Kanji'',
      dst_field = ustr ''Diagram'',
      overwrite_dest = True,
      diagrammed_characters = PStr (ustr ''mixed'')\<rparr>"

definition example_model :: model where
  "example_model =
     \<lparr>model_name = ustr ''Japanese (Core 2000)'',
      model_flds = [\<lparr>fld_name = ustr ''Kanji''\<rparr>, \<lparr>fld_name = ustr ''Meaning''\<rparr>,
                    \<lparr>fld_name = ustr ''Diagram''\<rparr>]\<rparr>"

text \<open>
  A persisted note with the given text in its source field, before any call; then the
  note with a Latin letter and two kanji, and the note with Latin letters only.
\<close>

definition example_world_with :: "ustring \<Rightarrow> world" where
  "example_world_with src =
     \<lparr>w_note = \<lparr>note_id = 5, note_model = example_model,
                 note_fields = [(ustr ''Kanji'', src), (ustr ''Meaning'', ustr ''Japan''),
                                (ustr ''Diagram'', ustr ''old'')]\<rparr>,
      w_trace = []\<rparr>"

definition example_world :: world where
  "example_world = example_world_with [97, 26085, 26412]"

definition example_world_latin :: world where
  "example_world_latin = example_world_with [97, 98]"

text \<open>
  A renderer and a host that fail, each call for one character of its own, with an
  exception other than \<open>InvalidCharacterError\<close>.
\<close>

definition example_externals_failing :: externals where
  "example_externals_failing =
     example_externals
       \<lparr>encode_utf_8 := (\<lambda>s. if s = [60, 20002, 62] then Inl (OtherError 2) else Inr s),
        ascii_filename := (\<lambda>c. if c < 128 then Inl InvalidCharacterError
                                else if c = 20000 then Inl (OtherError 0)
                                else Inr [c, 46, 115, 118, 103]),
        get_colored_svg := (\<lambda>k c. if c = 20001 then Inl (OtherError 1) else Inr [60, c, 62]),
        media_strip := (\<lambda>s. if s = [] then Inl (OtherError 4) else Inr s),
        media_writeData := (\<lambda>tr f d. if d = [60, 20003, 62] then Inl (OtherError 3) else Inr f),
        note_flush := (\<lambda>tr n. Some (OtherError 5))\<rparr>"

text \<open>What the loop does for that note: the markup it builds and the calls it makes.\<close>

definition example_markup :: ustring where
  "example_markup = img_tag [26085, 46, 115, 118, 103] @ img_tag [26412, 46, 115, 118, 103]"

definition example_trace :: "event list" where
  "example_trace =
     [MediaStrip [97, 26085, 26412],
      KanjiVG 26085, GetColoredSvg (KanjiColorizer (ustr ''--mode spectrum'')) 26085,
      WriteData [26085, 46, 115, 118, 103] [60, 26085, 62],
      KanjiVG 26412, GetColoredSvg (KanjiColorizer (ustr ''--mode spectrum'')) 26412,
      WriteData [26412, 46, 115, 118, 103] [60, 26412, 62]]"

text \<open>The calls of the loop for one character that is rendered and stored.\<close>

definition example_calls :: "uchar \<Rightarrow> event list" where
  "example_calls c =
     [KanjiVG c, GetColoredSvg (KanjiColorizer (ustr ''--mode spectrum'')) c,
      WriteData [c, 46, 115, 118, 103] [60, c, 62]]"

text \<open>The note of the example once the markup is in its destination field.\<close>

definition example_note_after :: Note where
  "example_note_after =
     (w_note example_world)
       \<lparr>note_fields := AList.update (ustr ''Diagram'') example_markup (note_fields (w_note example_world))\<rparr>"

section \<open>The examples, evaluated\<close>

lemma example_make_kanji_colorizer:
  assumes "data (ustr ''mode'') = Some (PStr (ustr ''spectrum''))"
    and "data (ustr ''group-mode'') = Some (PBool False)"
    and "data (ustr ''saturation'') = Some (PFloat (ustr ''0.95''))"
    and "data (ustr ''value'') = Some (PFloat (ustr ''0.75''))"
    and "data (ustr ''image-size'') = Some (PInt 327)"
  shows "make_kanji_colorizer example_externals data =
           Inr (KanjiColorizer (ustr ''--mode spectrum --saturation 0.95 --value 0.75 --image-size 327''))"
proof -
  have "make_kanji_colorizer example_externals data =
          Inr (KanjiColorizer (ustr ''--mode '' @ ustr ''spectrum'' @ ustr '' --saturation '' @ ustr ''0.95'' @
                 ustr '' --value '' @ ustr ''0.75'' @ ustr '' --image-size '' @ ustr ''327''))"
    using assms
    by (simp add: make_kanji_colorizer_def dict_getitem_def str_add_def example_externals_def)
  then show ?thesis
    by (simp add: ustr_def)
qed


lemma example_config_malformed_keys:
  "example_config_malformed (ustr ''mode'') = Some (PStr (ustr ''spectrum''))"
  "example_config_malformed (ustr ''group-mode'') = Some (PBool False)"
  "example_config_malformed (ustr ''saturation'') = Some (PFloat (ustr ''0.95''))"
  "example_config_malformed (ustr ''value'') = Some (PFloat (ustr ''0.75''))"
  "example_config_malformed (ustr ''image-size'') = Some (PInt 327)"
  "example_config_malformed (ustr ''diagrammed-characters'') = Some (PStr (ustr ''all''))"
  "example_config_malformed (ustr ''model'') = Some (PInt 3)"
  "example_config_malformed (ustr ''src-field'') = Some (PStr (ustr ''Expression''))"
  "example_config_malformed (ustr ''dst-field'') = None"
  "example_config_malformed (ustr ''overwrite-dest'') = Some (PStr (ustr ''no''))"
  by (simp_all add: example_config_malformed_def example_config_def ustr_def)

lemma example_config_none_keys:
  "(example_config(ustr ''diagrammed-characters'' \<mapsto> v)) (ustr ''mode'') = Some (PStr (ustr ''spectrum''))"
  "(example_config(ustr ''diagrammed-characters'' \<mapsto> v)) (ustr ''group-mode'') = Some (PBool False)"
  "(example_config(ustr ''diagrammed-characters'' \<mapsto> v)) (ustr ''saturation'') = Some (PFloat (ustr ''0.95''))"
  "(example_config(ustr ''diagrammed-characters'' \<mapsto> v)) (ustr ''value'') = Some (PFloat (ustr ''0.75''))"
  "(example_config(ustr ''diagrammed-characters'' \<mapsto> v)) (ustr ''image-size'') = Some (PInt 327)"
  by (simp_all add: example_config_def ustr_def)


lemma example_selected:
  assumes "diagrammed_characters p = PStr (ustr ''mixed'')"
  shows "characters_to_colorize p [97, 26085, 26412] = [26085, 26412]"
    and "characters_to_colorize p [97, 98] = [97, 98]"
    and "characters_to_colorize p [26085, 20001] = [26085, 20001]"
    and "characters_to_colorize p [26085] = [26085]"
  using assms by (simp_all add: characters_to_colorize_def is_kanji_def py_ord_def ustr_def)

lemma example_loop:
  assumes "kanji_colorizer p = KanjiColorizer (ustr ''--mode spectrum'')"
  shows "render_loop example_externals p [26085, 26412] [] [MediaStrip [97, 26085, 26412]]
           = (Inr example_markup, example_trace)"
    and "render_loop example_externals p [97, 98] [] [MediaStrip [97, 98]]
           = (Inr [], [MediaStrip [97, 98], KanjiVG 97, KanjiVG 98])"
  using assms by (simp_all add: example_externals_def example_markup_def example_trace_def)

lemma example_fields:
  assumes "src_field p = ustr ''Kanji''" and "dst_field p = ustr ''Diagram''"
  shows "note_getitem (w_note (example_world_with s)) (src_field p) = Inr s"
    and "note_getitem (w_note (example_world_with s)) (dst_field p) = Inr (ustr ''old'')"
    and "field_check_passes p (example_world_with s) None"
    and "field_check_passes p (example_world_with s) (Some 0)"
  using assms
  by (simp_all add: example_world_with_def note_getitem_def ustr_def field_check_passes_def
        list_getitem_def example_model_def)

lemma example_world_facts:
  "w_trace (example_world_with s) = []"
  "note_id (w_note (example_world_with s)) \<noteq> 0"
  "media_strip example_externals s = Inr s"
  "note_flush example_externals tr n = None"
  "ustr ''old'' \<noteq> []"
  "example_markup \<noteq> []"
  "example_markup \<noteq> ustr ''old''"
  by (simp_all add: example_world_with_def example_externals_def example_markup_def img_tag_def ustr_def)

lemma example_profile_facts:
  "overwrite_dest example_profile"
  "diagrammed_characters (example_profile\<lparr>overwrite_dest := b\<rparr>) = PStr (ustr ''mixed'')"
  "kanji_colorizer (example_profile\<lparr>overwrite_dest := b\<rparr>) = KanjiColorizer (ustr ''--mode spectrum'')"
  "src_field (example_profile\<lparr>overwrite_dest := b\<rparr>) = ustr ''Kanji''"
  "dst_field (example_profile\<lparr>overwrite_dest := b\<rparr>) = ustr ''Diagram''"
  "diagrammed_characters example_profile = PStr (ustr ''mixed'')"
  "kanji_colorizer example_profile = KanjiColorizer (ustr ''--mode spectrum'')"
  "src_field example_profile = ustr ''Kanji''"
  "dst_field example_profile = ustr ''Diagram''"
  by (simp_all add: example_profile_def)

lemma example_failing_calls:
  "ascii_filename example_externals_failing 98 = Inl InvalidCharacterError"
  "ascii_filename example_externals_failing 20000 = Inl (OtherError 0)"
  "OtherError 0 \<noteq> InvalidCharacterError"
  "ascii_filename example_externals_failing 20001 = Inr [20001, 46, 115, 118, 103]"
  "get_colored_svg example_externals_failing k 20001 = Inl (OtherError 1)"
  "ascii_filename example_externals_failing 20002 = Inr [20002, 46, 115, 118, 103]"
  "get_colored_svg example_externals_failing k 20002 = Inr [60, 20002, 62]"
  "encode_utf_8 example_externals_failing [60, 20002, 62] = Inl (OtherError 2)"
  "ascii_filename example_externals_failing 20003 = Inr [20003, 46, 115, 118, 103]"
  "get_colored_svg example_externals_failing k 20003 = Inr [60, 20003, 62]"
  "encode_utf_8 example_externals_failing [60, 20003, 62] = Inr [60, 20003, 62]"
  "media_writeData example_externals_failing tr f [60, 20003, 62] = Inl (OtherError 3)"
  "media_strip example_externals_failing [] = Inl (OtherError 4)"
  "media_strip example_externals_failing [26085, 20001] = Inr [26085, 20001]"
  "media_strip example_externals_failing [26085] = Inr [26085]"
  "note_flush example_externals_failing tr n = Some (OtherError 5)"
  by (simp_all add: example_externals_failing_def example_externals_def)

lemma example_failing_loop:
  assumes "kanji_colorizer p = KanjiColorizer (ustr ''--mode spectrum'')"
  shows "render_loop example_externals_failing p [97, 26085] [] []
           = (Inr (img_tag [26085, 46, 115, 118, 103]), KanjiVG 97 # example_calls 26085)"
    and "render_loop example_externals_failing p [26412] (img_tag [26085, 46, 115, 118, 103])
            ((KanjiVG 97 # example_calls 26085) @ [KanjiVG 98])
           = (Inr example_markup, KanjiVG 97 # example_calls 26085 @ KanjiVG 98 # example_calls 26412)"
    and "render_loop example_externals_failing p [26085, 20001] [] [MediaStrip [26085, 20001]]
           = (Inl (OtherError 1),
              MediaStrip [26085, 20001] # example_calls 26085 @
              [KanjiVG 20001, GetColoredSvg (KanjiColorizer (ustr ''--mode spectrum'')) 20001])"
    and "render_loop example_externals_failing p [26085] [] [MediaStrip [26085]]
           = (Inr (img_tag [26085, 46, 115, 118, 103]), MediaStrip [26085] # example_calls 26085)"
  using assms
  by (simp_all add: example_externals_failing_def example_externals_def example_calls_def
        example_markup_def)

section \<open>Character selection: the three policies\<close>

lemma ustr_kanji_neq_all: "ustr ''kanji'' \<noteq> ustr ''all''"
  by (simp add: ustr_def)

lemma characters_to_colorize_else:
  assumes "diagrammed_characters self \<noteq> PStr (ustr ''all'')"
    and "diagrammed_characters self \<noteq> PStr (ustr ''kanji'')"
  shows "characters_to_colorize self s = (if filter is_kanji s = [] then s else filter is_kanji s)"
  using assms by (cases "filter is_kanji s") (simp_all add: characters_to_colorize_def Let_def)

text \<open>
  C1. Under the policy \<^verbatim>\<open>'kanji'\<close>, \<open>characters_to_colorize\<close> returns, for every string,
  exactly the characters whose code point lies in the inclusive range 19968 to 40879, in
  their original order.
\<close>

theorem kanji_policy_selects_kanji_range:
  "diagrammed_characters self = PStr (ustr ''kanji'') \<Longrightarrow>
   characters_to_colorize self s = filter (\<lambda>c. 19968 \<le> py_ord c \<and> py_ord c \<le> 40879) s"
  using ustr_kanji_neq_all by (simp add: characters_to_colorize_def is_kanji_def [abs_def])

theorem kanji_policy_selects_kanji_range_witness:
  "diagrammed_characters (example_profile\<lparr>diagrammed_characters := PStr (ustr ''kanji'')\<rparr>) =
     PStr (ustr ''kanji'') \<and>
   characters_to_colorize (example_profile\<lparr>diagrammed_characters := PStr (ustr ''kanji'')\<rparr>)
     [97, 26085, 12354, 19967, 19968, 26412, 40879, 40880] = [26085, 19968, 26412, 40879]"
  using kanji_policy_selects_kanji_range
    [of "example_profile\<lparr>diagrammed_characters := PStr (ustr ''kanji'')\<rparr>"
        "[97, 26085, 12354, 19967, 19968, 26412, 40879, 40880]"]
  by (simp add: py_ord_def)

text \<open>
  C2. Under the mixed policy (the branch taken for a policy that is neither \<^verbatim>\<open>'all'\<close> nor
  \<^verbatim>\<open>'kanji'\<close>), a string with at least one kanji gives its kanji, in order, and a string
  with none gives the whole string unchanged; for such a string the policy \<^verbatim>\<open>'kanji'\<close>
  gives the empty list.
\<close>

theorem mixed_policy_kanji_or_all:
  assumes "diagrammed_characters self \<noteq> PStr (ustr ''all'')"
    and "diagrammed_characters self \<noteq> PStr (ustr ''kanji'')"
  shows "((\<exists>c \<in> set s. is_kanji c) \<longrightarrow> characters_to_colorize self s = filter is_kanji s) \<and>
         ((\<forall>c \<in> set s. \<not> is_kanji c) \<longrightarrow>
            characters_to_colorize self s = s \<and>
            characters_to_colorize (self\<lparr>diagrammed_characters := PStr (ustr ''kanji'')\<rparr>) s = [])"
proof -
  have "characters_to_colorize (self\<lparr>diagrammed_characters := PStr (ustr ''kanji'')\<rparr>) s =
          filter is_kanji s"
    using ustr_kanji_neq_all by (simp add: characters_to_colorize_def)
  then show ?thesis
    using characters_to_colorize_else [OF assms, of s]
    by (auto simp: filter_empty_conv)
qed

theorem mixed_policy_kanji_or_all_witness:
  "diagrammed_characters example_profile \<noteq> PStr (ustr ''all'') \<and>
   diagrammed_characters example_profile \<noteq> PStr (ustr ''kanji'') \<and>
   is_kanji 26085 \<and>
   characters_to_colorize example_profile [97, 26085, 12354, 26412] = [26085, 26412] \<and>
   \<not> is_kanji 97 \<and> \<not> is_kanji 12354 \<and> \<not> is_kanji 98 \<and>
   characters_to_colorize example_profile [97, 12354, 98] = [97, 12354, 98] \<and>
   characters_to_colorize (example_profile\<lparr>diagrammed_characters := PStr (ustr ''kanji'')\<rparr>)
     [97, 12354, 98] = []"
proof -
  have h1: "diagrammed_characters example_profile \<noteq> PStr (ustr ''all'')"
    by (simp add: example_profile_def ustr_def)
  have h2: "diagrammed_characters example_profile \<noteq> PStr (ustr ''kanji'')"
    by (simp add: example_profile_def ustr_def)
  show ?thesis
    using h1 h2
      mixed_policy_kanji_or_all [OF h1 h2, of "[97, 26085, 12354, 26412]"]
      mixed_policy_kanji_or_all [OF h1 h2, of "[97, 12354, 98]"]
    by (simp add: is_kanji_def py_ord_def)
qed

text \<open>
  C10. A policy value that is neither the string \<^verbatim>\<open>'all'\<close> nor the string \<^verbatim>\<open>'kanji'\<close>
  (a misspelling, \<^verbatim>\<open>None\<close>, a value of another type) selects as the mixed policy does: the
  kanji of the string if it has any, the whole string otherwise. Construction of the
  profile keeps the value as it is given and rejects none.
\<close>

theorem unrecognised_policy_is_mixed:
  assumes "v \<noteq> PStr (ustr ''all'')" and "v \<noteq> PStr (ustr ''kanji'')"
  shows "characters_to_colorize (self\<lparr>diagrammed_characters := v\<rparr>) s =
           (if filter is_kanji s \<noteq> [] then filter is_kanji s else s) \<and>
         (make_kanji_colorizer ext data = Inr kc \<longrightarrow>
          data (ustr ''diagrammed-characters'') = Some v \<longrightarrow>
            (\<exists>p. Profile_init ext data = Inr p \<and> diagrammed_characters p = v))"
proof -
  have "characters_to_colorize (self\<lparr>diagrammed_characters := v\<rparr>) s =
          (if filter is_kanji s = [] then s else filter is_kanji s)"
    using assms by (intro characters_to_colorize_else) simp_all
  then show ?thesis
    by (auto simp: Profile_init_def dict_getitem_def)
qed

theorem unrecognised_policy_is_mixed_witness:
  "PNone \<noteq> PStr (ustr ''all'') \<and> PNone \<noteq> PStr (ustr ''kanji'') \<and>
   characters_to_colorize (example_profile\<lparr>diagrammed_characters := PNone\<rparr>) [97, 26085, 98] = [26085] \<and>
   characters_to_colorize (example_profile\<lparr>diagrammed_characters := PNone\<rparr>) [97, 98] = [97, 98] \<and>
   PStr (ustr ''Kanji'') \<noteq> PStr (ustr ''all'') \<and> PStr (ustr ''Kanji'') \<noteq> PStr (ustr ''kanji'') \<and>
   characters_to_colorize (example_profile\<lparr>diagrammed_characters := PStr (ustr ''Kanji'')\<rparr>) [97, 98]
     = [97, 98] \<and>
   make_kanji_colorizer example_externals (example_config(ustr ''diagrammed-characters'' \<mapsto> PNone))
     = Inr (KanjiColorizer (ustr ''--mode spectrum --saturation 0.95 --value 0.75 --image-size 327'')) \<and>
   (example_config(ustr ''diagrammed-characters'' \<mapsto> PNone)) (ustr ''diagrammed-characters'') = Some PNone \<and>
   (\<exists>p. Profile_init example_externals (example_config(ustr ''diagrammed-characters'' \<mapsto> PNone)) = Inr p \<and>
        diagrammed_characters p = PNone)"
proof -
  have h1: "PNone \<noteq> PStr (ustr ''all'')" and h2: "PNone \<noteq> PStr (ustr ''kanji'')"
    by simp_all
  have h3: "PStr (ustr ''Kanji'') \<noteq> PStr (ustr ''all'')"
    and h4: "PStr (ustr ''Kanji'') \<noteq> PStr (ustr ''kanji'')"
    by (simp_all add: ustr_def)
  have kc: "make_kanji_colorizer example_externals (example_config(ustr ''diagrammed-characters'' \<mapsto> PNone))
     = Inr (KanjiColorizer (ustr ''--mode spectrum --saturation 0.95 --value 0.75 --image-size 327''))"
    by (rule example_make_kanji_colorizer) (rule example_config_none_keys)+
  have dc: "(example_config(ustr ''diagrammed-characters'' \<mapsto> PNone)) (ustr ''diagrammed-characters'')
              = Some PNone"
    by simp
  have k1: "filter is_kanji [97, 26085, 98] = [26085]" and k2: "filter is_kanji [97, 98] = []"
    by (simp_all add: is_kanji_def py_ord_def)
  show ?thesis
    using h1 h2 h3 h4 kc dc k1 k2
      unrecognised_policy_is_mixed [OF h1 h2, of example_profile "[97, 26085, 98]" example_externals
        "example_config(ustr ''diagrammed-characters'' \<mapsto> PNone)"
        "KanjiColorizer (ustr ''--mode spectrum --saturation 0.95 --value 0.75 --image-size 327'')"]
      unrecognised_policy_is_mixed [OF h1 h2, of example_profile "[97, 98]", THEN conjunct1]
      unrecognised_policy_is_mixed [OF h3 h4, of example_profile "[97, 98]", THEN conjunct1]
    by simp
qed

section \<open>Diagram application: the field check\<close>

lemma addKanji_passes:
  "field_check_passes self w idx \<Longrightarrow> addKanji ext self w flag idx = addKanji_apply ext self w flag"
  by (auto simp: field_check_passes_def addKanji_def split: option.splits sum.splits)

text \<open>
  C8. When a field was exited (the index is not \<^verbatim>\<open>None\<close>) and its name in the note's model
  differs from the profile's source field, \<open>addKanji\<close> returns the incoming flag and
  leaves the note and the trace as they were: nothing is rendered, written or changed.
\<close>

theorem addKanji_other_field_exited:
  assumes "list_getitem (model_flds (note_model (w_note w))) i = Inr f"
    and "fld_name f \<noteq> src_field self"
  shows "addKanji ext self w flag (Some i) = (Inr flag, w)"
  using assms by (simp add: addKanji_def)

theorem addKanji_other_field_exited_witness:
  "list_getitem (model_flds (note_model (w_note example_world))) 2 = Inr \<lparr>fld_name = ustr ''Diagram''\<rparr> \<and>
   fld_name \<lparr>fld_name = ustr ''Diagram''\<rparr> \<noteq> src_field example_profile \<and>
   addKanji example_externals example_profile example_world True (Some 2) = (Inr True, example_world)"
proof -
  have h1: "list_getitem (model_flds (note_model (w_note example_world))) 2
              = Inr \<lparr>fld_name = ustr ''Diagram''\<rparr>"
    by (simp add: example_world_def example_world_with_def example_model_def list_getitem_def)
  have h2: "fld_name \<lparr>fld_name = ustr ''Diagram''\<rparr> \<noteq> src_field example_profile"
    by (simp add: example_profile_def ustr_def)
  show ?thesis
    using h1 h2 addKanji_other_field_exited [OF h1 h2, of example_externals True]
    by simp
qed

section \<open>Diagram application: the loop and the guards\<close>

lemma writes_of_append: "writes_of (tr @ tr') = writes_of tr @ writes_of tr'"
  by (induction tr rule: writes_of.induct) simp_all

lemma rendered_of_append: "rendered_of (tr @ tr') = rendered_of tr @ rendered_of tr'"
  by (induction tr rule: rendered_of.induct) simp_all

lemma looked_up_of_append: "looked_up_of (tr @ tr') = looked_up_of tr @ looked_up_of tr'"
  by (induction tr rule: looked_up_of.induct) simp_all

lemma render_loop_append:
  "render_loop ext self (cs @ cs') dst tr =
     (case render_loop ext self cs dst tr of
        (Inl e, tr') \<Rightarrow> (Inl e, tr')
      | (Inr dst', tr') \<Rightarrow> render_loop ext self cs' dst' tr')"
  by (induction ext self cs dst tr rule: render_loop.induct)
     (simp_all add: Let_def split: sum.splits)

lemma render_loop_writes:
  "render_loop ext self cs dst tr = (Inr dst', tr') \<Longrightarrow>
   writes_of tr' = writes_of tr @ List.map_filter (diagram_file ext self) cs"
  by (induction ext self cs dst tr rule: render_loop.induct)
     (auto simp: Let_def writes_of_append diagram_file_def List.map_filter_simps
           split: sum.splits if_splits)

lemma render_loop_rendered:
  "render_loop ext self cs dst tr = (Inr dst', tr') \<Longrightarrow>
   rendered_of tr' =
     rendered_of tr @ filter (\<lambda>c. ascii_filename ext c \<noteq> Inl InvalidCharacterError) cs"
  by (induction ext self cs dst tr rule: render_loop.induct)
     (auto simp: Let_def rendered_of_append split: sum.splits if_splits)

lemma render_loop_looked_up:
  "render_loop ext self cs dst tr = (Inr dst', tr') \<Longrightarrow>
   looked_up_of tr' = looked_up_of tr @ cs"
  by (induction ext self cs dst tr rule: render_loop.induct)
     (auto simp: Let_def looked_up_of_append split: sum.splits if_splits)

lemma render_loop_written_each:
  "render_loop ext self cs dst tr = (Inr dst', tr') \<Longrightarrow>
   length (List.map_filter (diagram_file ext self) cs) =
     length (filter (\<lambda>c. ascii_filename ext c \<noteq> Inl InvalidCharacterError) cs)"
  by (induction ext self cs dst tr rule: render_loop.induct)
     (auto simp: Let_def diagram_file_def List.map_filter_simps split: sum.splits if_splits)

lemma render_loop_at:
  assumes "render_loop ext self cs dst tr = (Inr dst', tr')"
  shows "render_loop ext self (cs @ c # rest) dst tr = render_loop ext self (c # rest) dst' tr'"
  using assms by (simp add: render_loop_append)

lemma note_setitem_present:
  "note_getitem n key = Inr old \<Longrightarrow>
   note_setitem n key v = Inr (n\<lparr>note_fields := AList.update key v (note_fields n)\<rparr>)"
  by (auto simp: note_getitem_def note_setitem_def split: option.splits)

lemma note_getitem_updated:
  "note_getitem (n\<lparr>note_fields := AList.update key v (note_fields n)\<rparr>) key = Inr v"
  by (simp add: note_getitem_def update_conv')

text \<open>
  C3. When the destination field of the note is not empty and the profile does not
  overwrite, \<open>addKanji\<close> leaves the note as it is, whatever markup the loop computed, and
  what it returns is the incoming flag; the only other outcome is an exception of a call
  it makes, and when the index is in range, the source field exists and no call raises,
  the flag is returned.
\<close>

theorem addKanji_keeps_nonempty_destination:
  assumes "note_getitem (w_note w) (dst_field self) = Inr oldDst"
    and "oldDst \<noteq> []"
    and "\<not> overwrite_dest self"
  shows "w_note (snd (addKanji ext self w flag idx)) = w_note w \<and>
         (fst (addKanji ext self w flag idx) = Inr flag \<or>
          (\<exists>e. fst (addKanji ext self w flag idx) = Inl e)) \<and>
         ((\<forall>i. idx = Some i \<longrightarrow> list_getitem (model_flds (note_model (w_note w))) i \<noteq> Inl IndexError) \<and>
          note_getitem (w_note w) (src_field self) = Inr src \<and>
          media_strip ext src = Inr srcTxt \<and>
          render_loop ext self (characters_to_colorize self srcTxt) [] (w_trace w @ [MediaStrip src])
            = (Inr dst, tr)
          \<longrightarrow> fst (addKanji ext self w flag idx) = Inr flag)"
  using assms
  by (auto simp: addKanji_def addKanji_apply_def Let_def list_getitem_def
           split: option.splits sum.splits prod.splits if_splits)

theorem addKanji_keeps_nonempty_destination_witness:
  "note_getitem (w_note example_world) (dst_field (example_profile\<lparr>overwrite_dest := False\<rparr>))
     = Inr (ustr ''old'') \<and>
   ustr ''old'' \<noteq> [] \<and>
   \<not> overwrite_dest (example_profile\<lparr>overwrite_dest := False\<rparr>) \<and>
   w_note (snd (addKanji example_externals (example_profile\<lparr>overwrite_dest := False\<rparr>)
                  example_world True None)) = w_note example_world \<and>
   fst (addKanji example_externals (example_profile\<lparr>overwrite_dest := False\<rparr>)
          example_world True None) = Inr True"
proof -
  let ?p = "example_profile\<lparr>overwrite_dest := False\<rparr>"
  note pf = example_profile_facts
  have h1: "note_getitem (w_note example_world) (dst_field ?p) = Inr (ustr ''old'')"
    unfolding example_world_def by (rule example_fields) (rule pf)+
  have h2: "ustr ''old'' \<noteq> []"
    by (rule example_world_facts)
  have h3: "\<not> overwrite_dest ?p"
    by simp
  have p1: "\<forall>i. (None :: int option) = Some i \<longrightarrow>
              list_getitem (model_flds (note_model (w_note example_world))) i \<noteq> Inl IndexError"
    by simp
  have p2: "note_getitem (w_note example_world) (src_field ?p) = Inr [97, 26085, 26412]"
    unfolding example_world_def by (rule example_fields) (rule pf)+
  have p3: "media_strip example_externals [97, 26085, 26412] = Inr [97, 26085, 26412]"
    by (rule example_world_facts)
  have sel: "characters_to_colorize ?p [97, 26085, 26412] = [26085, 26412]"
    by (rule example_selected) (rule pf)
  have tr: "w_trace example_world @ [MediaStrip [97, 26085, 26412]] = [MediaStrip [97, 26085, 26412]]"
    by (simp add: example_world_def example_world_facts)
  have p4: "render_loop example_externals ?p (characters_to_colorize ?p [97, 26085, 26412]) []
              (w_trace example_world @ [MediaStrip [97, 26085, 26412]])
            = (Inr example_markup, example_trace)"
    unfolding sel tr by (rule example_loop) (rule pf)
  show ?thesis
    using h1 h2 h3 p1 p2 p3 p4
      addKanji_keeps_nonempty_destination [OF h1 h2 h3, where ext = example_externals
        and flag = True and idx = None and src = "[97, 26085, 26412]"
        and srcTxt = "[97, 26085, 26412]" and dst = example_markup and tr = example_trace]
    by blast
qed

text \<open>
  C4. With overwriting enabled, once the loop has computed its markup: a markup that is
  not empty and differs from the destination field is stored in that field, and the call
  returns \<^verbatim>\<open>True\<close>, after a flush of the note when the note is persisted
  (\<^verbatim>\<open>note.id != 0\<close>); an empty markup changes no field and the incoming flag is returned.
\<close>

theorem addKanji_overwrites_destination:
  assumes "overwrite_dest self"
    and "field_check_passes self w idx"
    and "note_getitem (w_note w) (src_field self) = Inr src"
    and "media_strip ext src = Inr srcTxt"
    and "note_getitem (w_note w) (dst_field self) = Inr oldDst"
    and "render_loop ext self (characters_to_colorize self srcTxt) [] (w_trace w @ [MediaStrip src])
           = (Inr dst, tr)"
    and "n = (w_note w)\<lparr>note_fields := AList.update (dst_field self) dst (note_fields (w_note w))\<rparr>"
  shows "note_getitem n (dst_field self) = Inr dst \<and>
         (dst \<noteq> [] \<and> dst \<noteq> oldDst \<and> note_id (w_note w) \<noteq> 0 \<and> note_flush ext tr n = None \<longrightarrow>
            addKanji ext self w flag idx = (Inr True, \<lparr>w_note = n, w_trace = tr @ [Flush n]\<rparr>)) \<and>
         (dst \<noteq> [] \<and> dst \<noteq> oldDst \<and> note_id (w_note w) = 0 \<longrightarrow>
            addKanji ext self w flag idx = (Inr True, \<lparr>w_note = n, w_trace = tr\<rparr>)) \<and>
         (dst = [] \<longrightarrow> addKanji ext self w flag idx = (Inr flag, w\<lparr>w_trace := tr\<rparr>))"
proof -
  have set: "note_setitem (w_note w) (dst_field self) dst = Inr n"
    using assms(5,7) by (simp add: note_setitem_present)
  have id: "note_id n = note_id (w_note w)"
    using assms(7) by simp
  have "note_getitem n (dst_field self) = Inr dst"
    using assms(7) by (simp add: note_getitem_updated)
  moreover have "addKanji ext self w flag idx = addKanji_apply ext self w flag"
    using assms(2) by (rule addKanji_passes)
  ultimately show ?thesis
    using assms(1,3,4,5,6) set id
    by (simp add: addKanji_apply_def)
qed

theorem addKanji_overwrites_destination_witness:
  "overwrite_dest example_profile \<and>
   addKanji example_externals example_profile example_world False (Some 0)
     = (Inr True, \<lparr>w_note = example_note_after,
                    w_trace = example_trace @ [Flush example_note_after]\<rparr>) \<and>
   note_getitem example_note_after (dst_field example_profile) = Inr example_markup \<and>
   addKanji example_externals example_profile
       (example_world\<lparr>w_note := (w_note example_world)\<lparr>note_id := 0\<rparr>\<rparr>) False (Some 0)
     = (Inr True, \<lparr>w_note = example_note_after\<lparr>note_id := 0\<rparr>, w_trace = example_trace\<rparr>) \<and>
   addKanji example_externals example_profile example_world_latin False None
     = (Inr False, example_world_latin\<lparr>w_trace := [MediaStrip [97, 98], KanjiVG 97, KanjiVG 98]\<rparr>)"
proof -
  let ?p = example_profile
  let ?w0 = "example_world\<lparr>w_note := (w_note example_world)\<lparr>note_id := 0\<rparr>\<rparr>"
  note pf = example_profile_facts
  have h1: "overwrite_dest ?p"
    by (rule pf)
  have h2: "field_check_passes ?p example_world (Some 0)"
    unfolding example_world_def by (rule example_fields) (rule pf)+
  have h3: "note_getitem (w_note example_world) (src_field ?p) = Inr [97, 26085, 26412]"
    unfolding example_world_def by (rule example_fields) (rule pf)+
  have h4: "media_strip example_externals s = Inr s" for s
    by (rule example_world_facts)
  have h5: "note_getitem (w_note example_world) (dst_field ?p) = Inr (ustr ''old'')"
    unfolding example_world_def by (rule example_fields) (rule pf)+
  have sel: "characters_to_colorize ?p [97, 26085, 26412] = [26085, 26412]"
    by (rule example_selected) (rule pf)
  have tr: "w_trace example_world @ [MediaStrip [97, 26085, 26412]] = [MediaStrip [97, 26085, 26412]]"
    by (simp add: example_world_def example_world_facts)
  have h6: "render_loop example_externals ?p (characters_to_colorize ?p [97, 26085, 26412]) []
              (w_trace example_world @ [MediaStrip [97, 26085, 26412]])
            = (Inr example_markup, example_trace)"
    unfolding sel tr by (rule example_loop) (rule pf)
  have h7: "example_note_after = (w_note example_world)
              \<lparr>note_fields := AList.update (dst_field ?p) example_markup (note_fields (w_note example_world))\<rparr>"
    by (simp add: example_note_after_def pf)
  have persisted: "note_id (w_note example_world) \<noteq> 0"
    unfolding example_world_def by (rule example_world_facts)
  have flush: "note_flush example_externals example_trace example_note_after = None"
    by (rule example_world_facts)
  have a: "addKanji example_externals ?p example_world False (Some 0)
             = (Inr True, \<lparr>w_note = example_note_after,
                            w_trace = example_trace @ [Flush example_note_after]\<rparr>) \<and>
           note_getitem example_note_after (dst_field ?p) = Inr example_markup"
    using addKanji_overwrites_destination [OF h1 h2 h3 h4 h5 h6 h7, of False]
      persisted flush example_world_facts(6,7)
    by blast
  have g2: "field_check_passes ?p ?w0 (Some 0)"
    using h2 by (simp add: field_check_passes_def)
  have g3: "note_getitem (w_note ?w0) (src_field ?p) = Inr [97, 26085, 26412]"
    using h3 by (simp add: note_getitem_def)
  have g5: "note_getitem (w_note ?w0) (dst_field ?p) = Inr (ustr ''old'')"
    using h5 by (simp add: note_getitem_def)
  have g6: "render_loop example_externals ?p (characters_to_colorize ?p [97, 26085, 26412]) []
              (w_trace ?w0 @ [MediaStrip [97, 26085, 26412]])
            = (Inr example_markup, example_trace)"
    using h6 by simp
  have g7: "example_note_after\<lparr>note_id := 0\<rparr> = (w_note ?w0)
              \<lparr>note_fields := AList.update (dst_field ?p) example_markup (note_fields (w_note ?w0))\<rparr>"
    by (simp add: example_note_after_def pf)
  have b: "addKanji example_externals ?p ?w0 False (Some 0)
             = (Inr True, \<lparr>w_note = example_note_after\<lparr>note_id := 0\<rparr>, w_trace = example_trace\<rparr>)"
    using addKanji_overwrites_destination [OF h1 g2 g3 h4 g5 g6 g7, of False]
      example_world_facts(6,7)
    by simp
  have l2: "field_check_passes ?p example_world_latin None"
    unfolding example_world_latin_def by (rule example_fields) (rule pf)+
  have l3: "note_getitem (w_note example_world_latin) (src_field ?p) = Inr [97, 98]"
    unfolding example_world_latin_def by (rule example_fields) (rule pf)+
  have l5: "note_getitem (w_note example_world_latin) (dst_field ?p) = Inr (ustr ''old'')"
    unfolding example_world_latin_def by (rule example_fields) (rule pf)+
  have lsel: "characters_to_colorize ?p [97, 98] = [97, 98]"
    by (rule example_selected) (rule pf)
  have ltr: "w_trace example_world_latin @ [MediaStrip [97, 98]] = [MediaStrip [97, 98]]"
    by (simp add: example_world_latin_def example_world_facts)
  have l6: "render_loop example_externals ?p (characters_to_colorize ?p [97, 98]) []
              (w_trace example_world_latin @ [MediaStrip [97, 98]])
            = (Inr [], [MediaStrip [97, 98], KanjiVG 97, KanjiVG 98])"
    unfolding lsel ltr by (rule example_loop) (rule pf)
  have c: "addKanji example_externals ?p example_world_latin False None
     = (Inr False, example_world_latin\<lparr>w_trace := [MediaStrip [97, 98], KanjiVG 97, KanjiVG 98]\<rparr>)"
    using addKanji_overwrites_destination [OF h1 l2 l3 h4 l5 l6 refl, of False]
    by blast
  show ?thesis
    using h1 a b c by blast
qed

text \<open>
  C7. In the loop, a character whose \<^verbatim>\<open>KanjiVG(c).ascii_filename\<close> raises
  \<open>InvalidCharacterError\<close> is skipped: the markup built so far is kept and the loop goes
  on with the remaining characters. Nothing else is caught: any other exception of
  \<^verbatim>\<open>ascii_filename\<close>, and every exception of \<^verbatim>\<open>get_colored_svg\<close>, of the encoding, of
  \<^verbatim>\<open>writeData\<close>, of \<^verbatim>\<open>media.strip\<close> and of \<^verbatim>\<open>flush\<close>, ends the loop and leaves
  \<open>addKanji\<close> as that exception.
\<close>

theorem render_loop_catches_only_invalid_character:
  assumes "render_loop ext self cs dst tr = (Inr dst', tr')"
  shows
    "(ascii_filename ext c = Inl InvalidCharacterError \<longrightarrow>
        render_loop ext self (cs @ c # rest) dst tr =
          render_loop ext self rest dst' (tr' @ [KanjiVG c])) \<and>
     (ascii_filename ext c = Inl e \<and> e \<noteq> InvalidCharacterError \<longrightarrow>
        render_loop ext self (cs @ c # rest) dst tr = (Inl e, tr' @ [KanjiVG c])) \<and>
     (ascii_filename ext c = Inr filename \<and>
      get_colored_svg ext (kanji_colorizer self) c = Inl e \<longrightarrow>
        render_loop ext self (cs @ c # rest) dst tr =
          (Inl e, tr' @ [KanjiVG c, GetColoredSvg (kanji_colorizer self) c])) \<and>
     (ascii_filename ext c = Inr filename \<and>
      get_colored_svg ext (kanji_colorizer self) c = Inr svg \<and>
      encode_utf_8 ext svg = Inl e \<longrightarrow>
        render_loop ext self (cs @ c # rest) dst tr =
          (Inl e, tr' @ [KanjiVG c, GetColoredSvg (kanji_colorizer self) c])) \<and>
     (ascii_filename ext c = Inr filename \<and>
      get_colored_svg ext (kanji_colorizer self) c = Inr svg \<and>
      encode_utf_8 ext svg = Inr char_svg \<and>
      media_writeData ext (tr' @ [KanjiVG c, GetColoredSvg (kanji_colorizer self) c])
        filename char_svg = Inl e \<longrightarrow>
        render_loop ext self (cs @ c # rest) dst tr =
          (Inl e, tr' @ [KanjiVG c, GetColoredSvg (kanji_colorizer self) c,
                         WriteData filename char_svg])) \<and>
     (field_check_passes self w idx \<and>
      note_getitem (w_note w) (src_field self) = Inr src \<and>
      media_strip ext src = Inl e \<longrightarrow>
        addKanji ext self w flag idx = (Inl e, w\<lparr>w_trace := w_trace w @ [MediaStrip src]\<rparr>)) \<and>
     (field_check_passes self w idx \<and>
      note_getitem (w_note w) (src_field self) = Inr src \<and>
      media_strip ext src = Inr srcTxt \<and>
      note_getitem (w_note w) (dst_field self) = Inr oldDst \<and>
      render_loop ext self (characters_to_colorize self srcTxt) [] (w_trace w @ [MediaStrip src])
        = (Inl e, tr2) \<longrightarrow>
        addKanji ext self w flag idx = (Inl e, w\<lparr>w_trace := tr2\<rparr>)) \<and>
     (field_check_passes self w idx \<and>
      note_getitem (w_note w) (src_field self) = Inr src \<and>
      media_strip ext src = Inr srcTxt \<and>
      note_getitem (w_note w) (dst_field self) = Inr oldDst \<and>
      render_loop ext self (characters_to_colorize self srcTxt) [] (w_trace w @ [MediaStrip src])
        = (Inr markup, tr2) \<and>
      (oldDst = [] \<or> overwrite_dest self) \<and> markup \<noteq> oldDst \<and> markup \<noteq> [] \<and>
      n = (w_note w)\<lparr>note_fields := AList.update (dst_field self) markup (note_fields (w_note w))\<rparr> \<and>
      note_id (w_note w) \<noteq> 0 \<and> note_flush ext tr2 n = Some e \<longrightarrow>
        addKanji ext self w flag idx = (Inl e, \<lparr>w_note = n, w_trace = tr2 @ [Flush n]\<rparr>))"
proof -
  have at: "render_loop ext self (cs @ c # rest) dst tr = render_loop ext self (c # rest) dst' tr'"
    using assms by (rule render_loop_at)
  have pass: "field_check_passes self w idx \<Longrightarrow>
      addKanji ext self w flag idx = addKanji_apply ext self w flag"
    by (rule addKanji_passes)
  have c1: "ascii_filename ext c = Inl InvalidCharacterError \<longrightarrow>
        render_loop ext self (cs @ c # rest) dst tr =
          render_loop ext self rest dst' (tr' @ [KanjiVG c])"
    by (simp add: at)
  have c2: "ascii_filename ext c = Inl e \<and> e \<noteq> InvalidCharacterError \<longrightarrow>
        render_loop ext self (cs @ c # rest) dst tr = (Inl e, tr' @ [KanjiVG c])"
    by (simp add: at)
  have c3: "ascii_filename ext c = Inr filename \<and>
      get_colored_svg ext (kanji_colorizer self) c = Inl e \<longrightarrow>
        render_loop ext self (cs @ c # rest) dst tr =
          (Inl e, tr' @ [KanjiVG c, GetColoredSvg (kanji_colorizer self) c])"
    by (simp add: at)
  have c4: "ascii_filename ext c = Inr filename \<and>
      get_colored_svg ext (kanji_colorizer self) c = Inr svg \<and>
      encode_utf_8 ext svg = Inl e \<longrightarrow>
        render_loop ext self (cs @ c # rest) dst tr =
          (Inl e, tr' @ [KanjiVG c, GetColoredSvg (kanji_colorizer self) c])"
    by (simp add: at)
  have c5: "ascii_filename ext c = Inr filename \<and>
      get_colored_svg ext (kanji_colorizer self) c = Inr svg \<and>
      encode_utf_8 ext svg = Inr char_svg \<and>
      media_writeData ext (tr' @ [KanjiVG c, GetColoredSvg (kanji_colorizer self) c])
        filename char_svg = Inl e \<longrightarrow>
        render_loop ext self (cs @ c # rest) dst tr =
          (Inl e, tr' @ [KanjiVG c, GetColoredSvg (kanji_colorizer self) c,
                         WriteData filename char_svg])"
    by (simp add: at)
  have c6: "field_check_passes self w idx \<and>
      note_getitem (w_note w) (src_field self) = Inr src \<and>
      media_strip ext src = Inl e \<longrightarrow>
        addKanji ext self w flag idx = (Inl e, w\<lparr>w_trace := w_trace w @ [MediaStrip src]\<rparr>)"
    by (simp add: pass addKanji_apply_def)
  have c7: "field_check_passes self w idx \<and>
      note_getitem (w_note w) (src_field self) = Inr src \<and>
      media_strip ext src = Inr srcTxt \<and>
      note_getitem (w_note w) (dst_field self) = Inr oldDst \<and>
      render_loop ext self (characters_to_colorize self srcTxt) [] (w_trace w @ [MediaStrip src])
        = (Inl e, tr2) \<longrightarrow>
        addKanji ext self w flag idx = (Inl e, w\<lparr>w_trace := tr2\<rparr>)"
    by (simp add: pass addKanji_apply_def)
  have c8: "field_check_passes self w idx \<and>
      note_getitem (w_note w) (src_field self) = Inr src \<and>
      media_strip ext src = Inr srcTxt \<and>
      note_getitem (w_note w) (dst_field self) = Inr oldDst \<and>
      render_loop ext self (characters_to_colorize self srcTxt) [] (w_trace w @ [MediaStrip src])
        = (Inr markup, tr2) \<and>
      (oldDst = [] \<or> overwrite_dest self) \<and> markup \<noteq> oldDst \<and> markup \<noteq> [] \<and>
      n = (w_note w)\<lparr>note_fields := AList.update (dst_field self) markup (note_fields (w_note w))\<rparr> \<and>
      note_id (w_note w) \<noteq> 0 \<and> note_flush ext tr2 n = Some e \<longrightarrow>
        addKanji ext self w flag idx = (Inl e, \<lparr>w_note = n, w_trace = tr2 @ [Flush n]\<rparr>)"
    by (auto simp: pass addKanji_apply_def note_setitem_present)
  show ?thesis
    using c1 c2 c3 c4 c5 c6 c7 c8 by blast
qed

theorem render_loop_catches_only_invalid_character_witness:
  "render_loop example_externals_failing example_profile [97, 26085] [] []
     = (Inr (img_tag [26085, 46, 115, 118, 103]), KanjiVG 97 # example_calls 26085) \<and>
   ascii_filename example_externals_failing 98 = Inl InvalidCharacterError \<and>
   render_loop example_externals_failing example_profile ([97, 26085] @ 98 # [26412]) [] []
     = (Inr example_markup, KanjiVG 97 # example_calls 26085 @ KanjiVG 98 # example_calls 26412) \<and>
   render_loop example_externals_failing example_profile ([97, 26085] @ 20000 # [26412]) [] []
     = (Inl (OtherError 0), (KanjiVG 97 # example_calls 26085) @ [KanjiVG 20000]) \<and>
   render_loop example_externals_failing example_profile ([97, 26085] @ 20001 # [26412]) [] []
     = (Inl (OtherError 1), (KanjiVG 97 # example_calls 26085) @
          [KanjiVG 20001, GetColoredSvg (kanji_colorizer example_profile) 20001]) \<and>
   render_loop example_externals_failing example_profile ([97, 26085] @ 20002 # [26412]) [] []
     = (Inl (OtherError 2), (KanjiVG 97 # example_calls 26085) @
          [KanjiVG 20002, GetColoredSvg (kanji_colorizer example_profile) 20002]) \<and>
   render_loop example_externals_failing example_profile ([97, 26085] @ 20003 # [26412]) [] []
     = (Inl (OtherError 3), (KanjiVG 97 # example_calls 26085) @
          [KanjiVG 20003, GetColoredSvg (kanji_colorizer example_profile) 20003,
           WriteData [20003, 46, 115, 118, 103] [60, 20003, 62]]) \<and>
   addKanji example_externals_failing example_profile (example_world_with []) True None
     = (Inl (OtherError 4), (example_world_with [])\<lparr>w_trace := [MediaStrip []]\<rparr>) \<and>
   addKanji example_externals_failing example_profile (example_world_with [26085, 20001]) True None
     = (Inl (OtherError 1),
        (example_world_with [26085, 20001])
          \<lparr>w_trace := MediaStrip [26085, 20001] # example_calls 26085 @
             [KanjiVG 20001, GetColoredSvg (KanjiColorizer (ustr ''--mode spectrum'')) 20001]\<rparr>) \<and>
   fst (addKanji example_externals_failing example_profile (example_world_with [26085]) True None)
     = Inl (OtherError 5) \<and>
   note_getitem
     (w_note (snd (addKanji example_externals_failing example_profile (example_world_with [26085])
                     True None))) (dst_field example_profile)
     = Inr (img_tag [26085, 46, 115, 118, 103])"
proof -
  let ?F = example_externals_failing
  let ?p = example_profile
  let ?d1 = "img_tag [26085, 46, 115, 118, 103]"
  let ?t1 = "KanjiVG 97 # example_calls 26085"
  note pf = example_profile_facts
  note fc = example_failing_calls
  note T = render_loop_catches_only_invalid_character
  have h: "render_loop ?F ?p [97, 26085] [] [] = (Inr ?d1, ?t1)"
    by (rule example_failing_loop) (rule pf)
  have h0: "render_loop ?F ?p [] [] [] = (Inr [], [])"
    by simp
  have a0: "render_loop ?F ?p ([97, 26085] @ 98 # [26412]) [] []
              = render_loop ?F ?p [26412] ?d1 (?t1 @ [KanjiVG 98])"
    by (rule T [OF h, THEN conjunct1, THEN mp]) (rule fc)
  have a: "render_loop ?F ?p ([97, 26085] @ 98 # [26412]) [] []
     = (Inr example_markup, KanjiVG 97 # example_calls 26085 @ KanjiVG 98 # example_calls 26412)"
    unfolding a0 by (rule example_failing_loop) (rule pf)
  have b: "render_loop ?F ?p ([97, 26085] @ 20000 # [26412]) [] []
     = (Inl (OtherError 0), ?t1 @ [KanjiVG 20000])"
    by (rule T [OF h, THEN conjunct2, THEN conjunct1, THEN mp]) (intro conjI; rule fc)
  have c: "render_loop ?F ?p ([97, 26085] @ 20001 # [26412]) [] []
     = (Inl (OtherError 1), ?t1 @ [KanjiVG 20001, GetColoredSvg (kanji_colorizer ?p) 20001])"
    by (rule T [OF h, THEN conjunct2, THEN conjunct2, THEN conjunct1, THEN mp])
       (intro conjI; rule fc)
  have d: "render_loop ?F ?p ([97, 26085] @ 20002 # [26412]) [] []
     = (Inl (OtherError 2), ?t1 @ [KanjiVG 20002, GetColoredSvg (kanji_colorizer ?p) 20002])"
    by (rule T [OF h, THEN conjunct2, THEN conjunct2, THEN conjunct2, THEN conjunct1, THEN mp])
       (intro conjI; rule fc)
  have e: "render_loop ?F ?p ([97, 26085] @ 20003 # [26412]) [] []
     = (Inl (OtherError 3), ?t1 @ [KanjiVG 20003, GetColoredSvg (kanji_colorizer ?p) 20003,
           WriteData [20003, 46, 115, 118, 103] [60, 20003, 62]])"
    by (rule T [OF h, THEN conjunct2, THEN conjunct2, THEN conjunct2, THEN conjunct2,
                THEN conjunct1, THEN mp])
       (intro conjI; rule fc)
  have chk: "field_check_passes ?p (example_world_with s) None" for s
    by (rule example_fields) (rule pf)+
  have src: "note_getitem (w_note (example_world_with s)) (src_field ?p) = Inr s" for s
    by (rule example_fields) (rule pf)+
  have dst: "note_getitem (w_note (example_world_with s)) (dst_field ?p) = Inr (ustr ''old'')" for s
    by (rule example_fields) (rule pf)+
  have tr0: "w_trace (example_world_with s) @ [MediaStrip s] = [MediaStrip s]" for s
    by (simp add: example_world_facts)
  have f0: "addKanji ?F ?p (example_world_with []) True None
     = (Inl (OtherError 4),
        (example_world_with [])\<lparr>w_trace := w_trace (example_world_with []) @ [MediaStrip []]\<rparr>)"
    by (rule T [OF h0, THEN conjunct2, THEN conjunct2, THEN conjunct2, THEN conjunct2,
                THEN conjunct2, THEN conjunct1, THEN mp])
       (intro conjI; rule chk src fc)
  have f: "addKanji ?F ?p (example_world_with []) True None
     = (Inl (OtherError 4), (example_world_with [])\<lparr>w_trace := [MediaStrip []]\<rparr>)"
    using f0 unfolding tr0 .
  have sel2: "characters_to_colorize ?p [26085, 20001] = [26085, 20001]"
    by (rule example_selected) (rule pf)
  have loop2: "render_loop ?F ?p (characters_to_colorize ?p [26085, 20001]) []
                 (w_trace (example_world_with [26085, 20001]) @ [MediaStrip [26085, 20001]])
           = (Inl (OtherError 1),
              MediaStrip [26085, 20001] # example_calls 26085 @
              [KanjiVG 20001, GetColoredSvg (KanjiColorizer (ustr ''--mode spectrum'')) 20001])"
    unfolding sel2 tr0 by (rule example_failing_loop) (rule pf)
  have g: "addKanji ?F ?p (example_world_with [26085, 20001]) True None
     = (Inl (OtherError 1),
        (example_world_with [26085, 20001])
          \<lparr>w_trace := MediaStrip [26085, 20001] # example_calls 26085 @
             [KanjiVG 20001, GetColoredSvg (KanjiColorizer (ustr ''--mode spectrum'')) 20001]\<rparr>)"
    by (rule T [OF h0, THEN conjunct2, THEN conjunct2, THEN conjunct2, THEN conjunct2,
                THEN conjunct2, THEN conjunct2, THEN conjunct1, THEN mp])
       (intro conjI; rule chk src dst fc loop2)
  let ?w3 = "example_world_with [26085]"
  let ?n3 = "(w_note ?w3)\<lparr>note_fields := AList.update (dst_field ?p) ?d1 (note_fields (w_note ?w3))\<rparr>"
  have sel3: "characters_to_colorize ?p [26085] = [26085]"
    by (rule example_selected) (rule pf)
  have loop3: "render_loop ?F ?p (characters_to_colorize ?p [26085]) []
                 (w_trace ?w3 @ [MediaStrip [26085]])
           = (Inr ?d1, MediaStrip [26085] # example_calls 26085)"
    unfolding sel3 tr0 by (rule example_failing_loop) (rule pf)
  have d1: "?d1 \<noteq> ustr ''old''" "?d1 \<noteq> []"
    by (simp_all add: img_tag_def ustr_def)
  have ovw: "ustr ''old'' = [] \<or> overwrite_dest ?p"
    by (rule disjI2) (rule pf)
  have i0: "addKanji ?F ?p ?w3 True None
     = (Inl (OtherError 5),
        \<lparr>w_note = ?n3, w_trace = (MediaStrip [26085] # example_calls 26085) @ [Flush ?n3]\<rparr>)"
    by (rule T [OF h0, THEN conjunct2, THEN conjunct2, THEN conjunct2, THEN conjunct2,
                THEN conjunct2, THEN conjunct2, THEN conjunct2, THEN mp])
       (intro conjI; rule chk src dst fc loop3 d1 ovw refl example_world_facts)
  have i: "fst (addKanji ?F ?p ?w3 True None) = Inl (OtherError 5)"
    "note_getitem (w_note (snd (addKanji ?F ?p ?w3 True None))) (dst_field ?p) = Inr ?d1"
    unfolding i0 by (simp_all add: note_getitem_updated)
  show ?thesis
    by (intro conjI) (rule h fc(1) a b c d e f g i)+
qed

text \<open>
  C9. The guard on overwriting is evaluated after the loop. With a destination field that
  is not empty and a profile that does not overwrite, \<open>addKanji\<close> still looks up every
  selected character, renders each one the renderer knows and writes each rendered
  diagram to the media store; the note is left as it is, the trace of calls is not.
\<close>

theorem addKanji_writes_media_without_overwrite:
  assumes "\<not> overwrite_dest self"
    and "note_getitem (w_note w) (dst_field self) = Inr oldDst"
    and "oldDst \<noteq> []"
    and "field_check_passes self w idx"
    and "note_getitem (w_note w) (src_field self) = Inr src"
    and "media_strip ext src = Inr srcTxt"
    and "render_loop ext self (characters_to_colorize self srcTxt) [] (w_trace w @ [MediaStrip src])
           = (Inr dst, tr)"
  shows "addKanji ext self w flag idx = (Inr flag, w\<lparr>w_trace := tr\<rparr>) \<and>
         looked_up_of tr = looked_up_of (w_trace w) @ characters_to_colorize self srcTxt \<and>
         rendered_of tr = rendered_of (w_trace w) @
           filter (\<lambda>c. ascii_filename ext c \<noteq> Inl InvalidCharacterError)
             (characters_to_colorize self srcTxt) \<and>
         writes_of tr = writes_of (w_trace w) @
           List.map_filter (diagram_file ext self) (characters_to_colorize self srcTxt) \<and>
         length (writes_of tr) = length (writes_of (w_trace w)) +
           length (filter (\<lambda>c. ascii_filename ext c \<noteq> Inl InvalidCharacterError)
             (characters_to_colorize self srcTxt))"
proof -
  have "addKanji ext self w flag idx = addKanji_apply ext self w flag"
    using assms(4) by (rule addKanji_passes)
  then have "addKanji ext self w flag idx = (Inr flag, w\<lparr>w_trace := tr\<rparr>)"
    using assms by (simp add: addKanji_apply_def)
  moreover have "looked_up_of tr = looked_up_of (w_trace w) @ characters_to_colorize self srcTxt"
    using render_loop_looked_up [OF assms(7)] by (simp add: looked_up_of_append)
  moreover have "rendered_of tr = rendered_of (w_trace w) @
           filter (\<lambda>c. ascii_filename ext c \<noteq> Inl InvalidCharacterError)
             (characters_to_colorize self srcTxt)"
    using render_loop_rendered [OF assms(7)] by (simp add: rendered_of_append)
  moreover have w: "writes_of tr = writes_of (w_trace w) @
           List.map_filter (diagram_file ext self) (characters_to_colorize self srcTxt)"
    using render_loop_writes [OF assms(7)] by (simp add: writes_of_append)
  moreover have "length (writes_of tr) = length (writes_of (w_trace w)) +
           length (filter (\<lambda>c. ascii_filename ext c \<noteq> Inl InvalidCharacterError)
             (characters_to_colorize self srcTxt))"
    using w render_loop_written_each [OF assms(7)] by simp
  ultimately show ?thesis by blast
qed

theorem addKanji_writes_media_without_overwrite_witness:
  "addKanji example_externals (example_profile\<lparr>overwrite_dest := False\<rparr>) example_world True None
     = (Inr True, example_world\<lparr>w_trace := example_trace\<rparr>) \<and>
   looked_up_of example_trace = [26085, 26412] \<and>
   rendered_of example_trace = [26085, 26412] \<and>
   writes_of example_trace =
     [([26085, 46, 115, 118, 103], [60, 26085, 62]), ([26412, 46, 115, 118, 103], [60, 26412, 62])] \<and>
   length (writes_of example_trace) = 2"
proof -
  let ?p = "example_profile\<lparr>overwrite_dest := False\<rparr>"
  note pf = example_profile_facts
  have h1: "\<not> overwrite_dest ?p"
    by simp
  have h2: "note_getitem (w_note example_world) (dst_field ?p) = Inr (ustr ''old'')"
    unfolding example_world_def by (rule example_fields) (rule pf)+
  have h3: "ustr ''old'' \<noteq> []"
    by (rule example_world_facts)
  have h4: "field_check_passes ?p example_world None"
    unfolding example_world_def by (rule example_fields) (rule pf)+
  have h5: "note_getitem (w_note example_world) (src_field ?p) = Inr [97, 26085, 26412]"
    unfolding example_world_def by (rule example_fields) (rule pf)+
  have h6: "media_strip example_externals [97, 26085, 26412] = Inr [97, 26085, 26412]"
    by (rule example_world_facts)
  have sel: "characters_to_colorize ?p [97, 26085, 26412] = [26085, 26412]"
    by (rule example_selected) (rule pf)
  have tr: "w_trace example_world @ [MediaStrip [97, 26085, 26412]] = [MediaStrip [97, 26085, 26412]]"
    by (simp add: example_world_def example_world_facts)
  have h7: "render_loop example_externals ?p (characters_to_colorize ?p [97, 26085, 26412]) []
              (w_trace example_world @ [MediaStrip [97, 26085, 26412]])
            = (Inr example_markup, example_trace)"
    unfolding sel tr by (rule example_loop) (rule pf)
  have w0: "w_trace example_world = []"
    by (simp add: example_world_def example_world_facts)
  have valid: "filter (\<lambda>c. ascii_filename example_externals c \<noteq> Inl InvalidCharacterError) [26085, 26412]
                 = [26085, 26412]"
    by (simp add: example_externals_def)
  have files: "List.map_filter (diagram_file example_externals ?p) [26085, 26412] =
     [([26085, 46, 115, 118, 103], [60, 26085, 62]), ([26412, 46, 115, 118, 103], [60, 26412, 62])]"
    by (simp add: List.map_filter_simps diagram_file_def example_externals_def)
  show ?thesis
    using addKanji_writes_media_without_overwrite
      [OF h1 h2 h3 h4 h5 h6 h7, of True, unfolded sel w0 valid files]
    by simp
qed

section \<open>Model matching: the criterion\<close>

lemma starts_with_iff: "starts_with s sub \<longleftrightarrow> (\<exists>post. s = sub @ post)"
  by (induction s sub rule: starts_with.induct) auto

lemma str_contains_iff: "str_contains s sub \<longleftrightarrow> (\<exists>pre post. s = pre @ sub @ post)"
proof (induction s)
  case Nil
  then show ?case by auto
next
  case (Cons c s)
  show ?case
  proof
    assume "str_contains (c # s) sub"
    then consider "starts_with (c # s) sub" | "str_contains s sub" by auto
    then show "\<exists>pre post. c # s = pre @ sub @ post"
    proof cases
      case 1
      then obtain post where "c # s = sub @ post" by (auto simp: starts_with_iff)
      then have "c # s = [] @ sub @ post" by simp
      then show ?thesis by blast
    next
      case 2
      then obtain pre post where "s = pre @ sub @ post" using Cons.IH by auto
      then have "c # s = (c # pre) @ sub @ post" by simp
      then show ?thesis by blast
    qed
  next
    assume "\<exists>pre post. c # s = pre @ sub @ post"
    then obtain pre post where eq: "c # s = pre @ sub @ post" by blast
    show "str_contains (c # s) sub"
    proof (cases pre)
      case Nil
      then have "starts_with (c # s) sub" using eq by (auto simp: starts_with_iff)
      then show ?thesis by simp
    next
      case (Cons a pre')
      then have "s = pre' @ sub @ post" using eq by simp
      then have "str_contains s sub" using Cons.IH by blast
      then show ?thesis by simp
    qed
  qed
qed

lemma lower_Japanese_Core_2000:
  "lower ext (ustr ''Japanese (Core 2000)'') = ustr ''japanese (core 2000)''"
  by (simp add: lower_def ustr_def ascii_lower_def)

lemma str_contains_japanese:
  "str_contains (ustr ''japanese (core 2000)'') (ustr ''japanese'')"
  by (simp add: ustr_def)

text \<open>
  C6. \<open>model_is_correct_type\<close> is true exactly when the lower-cased name of the model
  contains the profile's substring and the model's field names contain both the source and
  the destination field. A model named \<^verbatim>\<open>Japanese (Core 2000)\<close> with fields \<^verbatim>\<open>Kanji\<close> and
  \<^verbatim>\<open>Diagram\<close> matches the profile for \<^verbatim>\<open>japanese\<close>, \<^verbatim>\<open>Kanji\<close>, \<^verbatim>\<open>Diagram\<close>; a model
  without one of the two fields does not match. The check is a function of the profile and
  the model alone: it reads and returns, and changes nothing.
\<close>

theorem model_is_correct_type_iff:
  "(model_is_correct_type ext self m \<longleftrightarrow>
      (\<exists>pre post. lower ext (model_name m) = pre @ model_name_substr self @ post) \<and>
      src_field self \<in> set (fieldNames m) \<and> dst_field self \<in> set (fieldNames m)) \<and>
   (model_name m = ustr ''Japanese (Core 2000)'' \<and> ustr ''Kanji'' \<in> set (fieldNames m) \<and>
    ustr ''Diagram'' \<in> set (fieldNames m) \<and> model_name_substr self = ustr ''japanese'' \<and>
    src_field self = ustr ''Kanji'' \<and> dst_field self = ustr ''Diagram''
      \<longrightarrow> model_is_correct_type ext self m) \<and>
   (src_field self \<notin> set (fieldNames m) \<or> dst_field self \<notin> set (fieldNames m)
      \<longrightarrow> \<not> model_is_correct_type ext self m)"
  using lower_Japanese_Core_2000 [of ext] str_contains_japanese
  by (auto simp: model_is_correct_type_def Let_def str_contains_iff)

theorem model_is_correct_type_iff_witness:
  "model_name example_model = ustr ''Japanese (Core 2000)'' \<and>
   ustr ''Kanji'' \<in> set (fieldNames example_model) \<and>
   ustr ''Diagram'' \<in> set (fieldNames example_model) \<and>
   model_name_substr example_profile = ustr ''japanese'' \<and>
   src_field example_profile = ustr ''Kanji'' \<and> dst_field example_profile = ustr ''Diagram'' \<and>
   model_is_correct_type example_externals example_profile example_model \<and>
   dst_field example_profile \<notin> set (fieldNames (example_model\<lparr>model_flds := [\<lparr>fld_name = ustr ''Kanji''\<rparr>]\<rparr>)) \<and>
   \<not> model_is_correct_type example_externals example_profile
        (example_model\<lparr>model_flds := [\<lparr>fld_name = ustr ''Kanji''\<rparr>]\<rparr>) \<and>
   src_field example_profile \<notin> set (fieldNames (example_model\<lparr>model_flds := [\<lparr>fld_name = ustr ''Diagram''\<rparr>]\<rparr>)) \<and>
   \<not> model_is_correct_type example_externals example_profile
        (example_model\<lparr>model_flds := [\<lparr>fld_name = ustr ''Diagram''\<rparr>]\<rparr>)"
  using model_is_correct_type_iff [of example_externals example_profile example_model, THEN conjunct2]
    model_is_correct_type_iff [of example_externals example_profile
      "example_model\<lparr>model_flds := [\<lparr>fld_name = ustr ''Kanji''\<rparr>]\<rparr>", THEN conjunct2]
    model_is_correct_type_iff [of example_externals example_profile
      "example_model\<lparr>model_flds := [\<lparr>fld_name = ustr ''Diagram''\<rparr>]\<rparr>", THEN conjunct2]
  by (simp add: example_model_def example_profile_def fieldNames_def ustr_def)

section \<open>Profile construction\<close>

lemma Profile_init_ok:
  assumes "make_kanji_colorizer ext data = Inr kc"
    and "data (ustr ''diagrammed-characters'') = Some dc"
  shows "Profile_init ext data =
     Inr \<lparr>kanji_colorizer = kc,
          model_name_substr = (case data (ustr ''model'') of
                   Some (PStr s) \<Rightarrow> lower ext s | _ \<Rightarrow> ustr ''japanese''),
          src_field = (case data (ustr ''src-field'') of
                   Some (PStr s) \<Rightarrow> s | _ \<Rightarrow> ustr ''Kanji''),
          dst_field = (case data (ustr ''dst-field'') of
                   Some (PStr s) \<Rightarrow> s | _ \<Rightarrow> ustr ''Diagram''),
          overwrite_dest = (case data (ustr ''overwrite-dest'') of
                   Some (PBool b) \<Rightarrow> b | _ \<Rightarrow> True),
          diagrammed_characters = dc\<rparr>"
  using assms by (simp add: Profile_init_def dict_getitem_def Let_def)

lemma str_key_default:
  "(\<forall>s. v \<noteq> Some (PStr s)) \<Longrightarrow> (case v of Some (PStr s) \<Rightarrow> f s | _ \<Rightarrow> d) = d"
  by (cases v) (auto split: pyval.splits)

lemma bool_key_default:
  "(\<forall>b. v \<noteq> Some (PBool b)) \<Longrightarrow> (case v of Some (PBool b) \<Rightarrow> f b | _ \<Rightarrow> d) = d"
  by (cases v) (auto split: pyval.splits)

text \<open>
  The renderer is built from every record that has the five rendering keys, with a string
  for \<^verbatim>\<open>mode\<close>, once its constructor accepts the option string put together from them.
\<close>

lemma make_kanji_colorizer_ok:
  assumes "data (ustr ''mode'') = Some (PStr mode)"
    and "data (ustr ''group-mode'') = Some group_mode"
    and "data (ustr ''saturation'') = Some saturation"
    and "data (ustr ''value'') = Some val"
    and "data (ustr ''image-size'') = Some image_size"
    and "config =
           (if truthy group_mode then ustr ''--mode '' @ mode @ ustr '' --group-mode ''
            else ustr ''--mode '' @ mode) @
           ustr '' --saturation '' @ py_str ext saturation @
           ustr '' --value '' @ py_str ext val @
           ustr '' --image-size '' @ py_str ext image_size"
    and "new_KanjiColorizer ext config = None"
  shows "make_kanji_colorizer ext data = Inr (KanjiColorizer config)"
  using assms
  by (cases "truthy group_mode")
     (simp_all add: make_kanji_colorizer_def dict_getitem_def str_add_def Let_def)

text \<open>
  C5, as the spec states it: construction succeeds for every configuration record. It does
  not: a record without the key \<^verbatim>\<open>mode\<close> (here the empty record) makes
  \<open>make_kanji_colorizer\<close> raise \<^verbatim>\<open>KeyError\<close>.
\<close>

theorem Profile_init_empty_record_raises:
  "Profile_init example_externals Map.empty = Inl KeyError"
  by (simp add: Profile_init_def make_kanji_colorizer_def dict_getitem_def)

text \<open>
  C5, amended. For every configuration record that has the keys \<^verbatim>\<open>mode\<close> (a string),
  \<^verbatim>\<open>group-mode\<close>, \<^verbatim>\<open>saturation\<close>, \<^verbatim>\<open>value\<close>, \<^verbatim>\<open>image-size\<close> and
  \<^verbatim>\<open>diagrammed-characters\<close>, and whose option string the renderer's constructor accepts,
  construction succeeds; each of \<^verbatim>\<open>model\<close>, \<^verbatim>\<open>src-field\<close>, \<^verbatim>\<open>dst-field\<close> and
  \<^verbatim>\<open>overwrite-dest\<close> that is missing or has a value of the wrong type is replaced by its
  default (\<^verbatim>\<open>japanese\<close>, \<^verbatim>\<open>Kanji\<close>, \<^verbatim>\<open>Diagram\<close>, true), and a value of the right type
  is kept (the model substring lower-cased).
\<close>

theorem Profile_init_defaults:
  assumes "data (ustr ''mode'') = Some (PStr mode)"
    and "data (ustr ''group-mode'') = Some group_mode"
    and "data (ustr ''saturation'') = Some saturation"
    and "data (ustr ''value'') = Some val"
    and "data (ustr ''image-size'') = Some image_size"
    and "config =
           (if truthy group_mode then ustr ''--mode '' @ mode @ ustr '' --group-mode ''
            else ustr ''--mode '' @ mode) @
           ustr '' --saturation '' @ py_str ext saturation @
           ustr '' --value '' @ py_str ext val @
           ustr '' --image-size '' @ py_str ext image_size"
    and "new_KanjiColorizer ext config = None"
    and "data (ustr ''diagrammed-characters'') = Some dc"
  shows "\<exists>p. Profile_init ext data = Inr p \<and>
           kanji_colorizer p = KanjiColorizer config \<and> diagrammed_characters p = dc \<and>
           ((\<forall>s. data (ustr ''model'') \<noteq> Some (PStr s)) \<longrightarrow> model_name_substr p = ustr ''japanese'') \<and>
           (\<forall>s. data (ustr ''model'') = Some (PStr s) \<longrightarrow> model_name_substr p = lower ext s) \<and>
           ((\<forall>s. data (ustr ''src-field'') \<noteq> Some (PStr s)) \<longrightarrow> src_field p = ustr ''Kanji'') \<and>
           (\<forall>s. data (ustr ''src-field'') = Some (PStr s) \<longrightarrow> src_field p = s) \<and>
           ((\<forall>s. data (ustr ''dst-field'') \<noteq> Some (PStr s)) \<longrightarrow> dst_field p = ustr ''Diagram'') \<and>
           (\<forall>s. data (ustr ''dst-field'') = Some (PStr s) \<longrightarrow> dst_field p = s) \<and>
           ((\<forall>b. data (ustr ''overwrite-dest'') \<noteq> Some (PBool b)) \<longrightarrow> overwrite_dest p) \<and>
           (\<forall>b. data (ustr ''overwrite-dest'') = Some (PBool b) \<longrightarrow> overwrite_dest p = b)"
proof (intro exI conjI)
  have kc: "make_kanji_colorizer ext data = Inr (KanjiColorizer config)"
    by (rule make_kanji_colorizer_ok [OF assms(1-7)])
  show "Profile_init ext data = Inr \<lparr>kanji_colorizer = KanjiColorizer config,
          model_name_substr = (case data (ustr ''model'') of
                   Some (PStr s) \<Rightarrow> lower ext s | _ \<Rightarrow> ustr ''japanese''),
          src_field = (case data (ustr ''src-field'') of
                   Some (PStr s) \<Rightarrow> s | _ \<Rightarrow> ustr ''Kanji''),
          dst_field = (case data (ustr ''dst-field'') of
                   Some (PStr s) \<Rightarrow> s | _ \<Rightarrow> ustr ''Diagram''),
          overwrite_dest = (case data (ustr ''overwrite-dest'') of
                   Some (PBool b) \<Rightarrow> b | _ \<Rightarrow> True),
          diagrammed_characters = dc\<rparr>"
    by (rule Profile_init_ok [OF kc assms(8)])
qed (simp_all add: str_key_default bool_key_default)

theorem Profile_init_defaults_witness:
  "example_config_malformed (ustr ''mode'') = Some (PStr (ustr ''spectrum'')) \<and>
   example_config_malformed (ustr ''group-mode'') = Some (PBool False) \<and>
   example_config_malformed (ustr ''saturation'') = Some (PFloat (ustr ''0.95'')) \<and>
   example_config_malformed (ustr ''value'') = Some (PFloat (ustr ''0.75'')) \<and>
   example_config_malformed (ustr ''image-size'') = Some (PInt 327) \<and>
   new_KanjiColorizer example_externals
     (ustr ''--mode spectrum --saturation 0.95 --value 0.75 --image-size 327'') = None \<and>
   example_config_malformed (ustr ''diagrammed-characters'') = Some (PStr (ustr ''all'')) \<and>
   example_config_malformed (ustr ''model'') = Some (PInt 3) \<and>
   example_config_malformed (ustr ''src-field'') = Some (PStr (ustr ''Expression'')) \<and>
   example_config_malformed (ustr ''dst-field'') = None \<and>
   example_config_malformed (ustr ''overwrite-dest'') = Some (PStr (ustr ''no'')) \<and>
   Profile_init example_externals example_config_malformed =
     Inr \<lparr>kanji_colorizer =
            KanjiColorizer (ustr ''--mode spectrum --saturation 0.95 --value 0.75 --image-size 327''),
          model_name_substr = ustr ''japanese'', src_field = ustr ''Expression'',
          dst_field = ustr ''Diagram'', overwrite_dest = True,
          diagrammed_characters = PStr (ustr ''all'')\<rparr>"
proof -
  note k = example_config_malformed_keys
  have cfg: "ustr ''--mode spectrum --saturation 0.95 --value 0.75 --image-size 327'' =
           (if truthy (PBool False) then ustr ''--mode '' @ ustr ''spectrum'' @ ustr '' --group-mode ''
            else ustr ''--mode '' @ ustr ''spectrum'') @
           ustr '' --saturation '' @ py_str example_externals (PFloat (ustr ''0.95'')) @
           ustr '' --value '' @ py_str example_externals (PFloat (ustr ''0.75'')) @
           ustr '' --image-size '' @ py_str example_externals (PInt 327)"
    by (simp add: example_externals_def ustr_def)
  have ok: "new_KanjiColorizer example_externals
              (ustr ''--mode spectrum --saturation 0.95 --value 0.75 --image-size 327'') = None"
    by (simp add: example_externals_def)
  show ?thesis
    using ok Profile_init_defaults [OF k(1) k(2) k(3) k(4) k(5) cfg ok k(6)]
    by (auto simp: k)
qed

end
